theory Spec2Isabelle
  imports Main "HOL-Library.Char_ord" "HOL-Library.List_Lexorder"
begin

section \<open>Data migration tool of wardenly-rs: a model of migrate.py\<close>

text \<open>
  The development follows \<^verbatim>\<open>tools/data_migrate/migrate.py\<close>. A Python \<open>str\<close> is
  given by its UTF-8 bytes, and a stored \<open>TEXT\<close> value by its bytes, which need not be
  UTF-8. Strings are ordered bytewise with a proper prefix first: the order of SQLite's
  default BINARY collation and of MongoDB's string comparison. Python integers are
  \<^typ>\<open>int\<close>; SQLite holds 64-bit integers.

  Scalar fields carry the types of the dataclass annotations; \<open>None\<close> is admitted
  exactly where the relational schema leaves a column nullable (\<open>ranking\<close>,
  \<open>description\<close>, \<open>cookies\<close>). The two JSON substructures (\<open>cookies\<close>,
  \<open>account_ids\<close>) are dynamic values, because \<open>json.loads\<close> may return any
  JSON value for a stored text. Floating-point numbers, and the values of MongoDB that
  JSON cannot encode (dates, object ids), are left out.

  A backend value carries the state of its connection: \<open>connect\<close>, \<open>close\<close> and
  \<open>main\<close> (argument parsing, the confirmation prompt) are not modelled, nor is the text
  that \<open>migrate\<close> prints.
\<close>

subsection \<open>Python values and exceptions\<close>

datatype pyval =
    PNone
  | PBool bool
  | PInt int
  | PStr string
  | PList "pyval list"
  | PDict "(string \<times> pyval) list"

text \<open>Truth value testing, as in \<^verbatim>\<open>if acc.cookies\<close>.\<close>

fun truthy :: "pyval \<Rightarrow> bool" where
  "truthy PNone = False"
| "truthy (PBool b) = b"
| "truthy (PInt n) = (n \<noteq> 0)"
| "truthy (PStr s) = (s \<noteq> [])"
| "truthy (PList xs) = (xs \<noteq> [])"
| "truthy (PDict kvs) = (kvs \<noteq> [])"

datatype error =
    RuntimeError string
  | ValueError string
  | TypeError string
  | OperationalError string
  | OverflowError string
  | UnicodeEncodeError string
  | RecursionError string
  | NotImplementedError string

text \<open>\<^verbatim>\<open>len(x)\<close>: a TypeError for a value without a length.\<close>

fun py_len :: "pyval \<Rightarrow> error + nat" where
  "py_len (PStr s) = Inr (length s)"
| "py_len (PList xs) = Inr (length xs)"
| "py_len (PDict kvs) = Inr (length kvs)"
| "py_len PNone = Inl (TypeError ''object of type NoneType has no len()'')"
| "py_len (PBool b) = Inl (TypeError ''object of type bool has no len()'')"
| "py_len (PInt n) = Inl (TypeError ''object of type int has no len()'')"

subsection \<open>The imported modules\<close>

text \<open>
  The modules \<open>json\<close> and \<open>pymongo\<close> are outside the repository; what the code uses of
  them is a parameter of the model.
  \<^item> \<open>dumps\<close> is \<open>json.dumps\<close>: the text, or the exception it raises.
  \<^item> \<open>loads\<close> is \<open>json.loads\<close>: the value, or \<open>JSONDecodeError\<close> (the one exception
    the code catches), or another exception (\<open>RecursionError\<close> on a deeply nested text,
    \<open>ValueError\<close> on an integer of too many digits), which the code does not catch.
  \<^item> \<open>database_bool\<close> is the truth value of a \<open>pymongo\<close> \<open>Database\<close> object, as
    \<^verbatim>\<open>if not self.db\<close> asks for it: PyMongo 4 raises \<open>NotImplementedError\<close> there,
    earlier versions return \<open>True\<close>.
\<close>

datatype loads_result = Decoded pyval | JSONDecodeError | Raised error

record libs =
  dumps :: "pyval \<Rightarrow> error + string"
  loads :: "string \<Rightarrow> loads_result"
  database_bool :: "error + bool"

subsection \<open>Data models\<close>

record Account =
  a_id :: string
  a_role_name :: string
  a_user_name :: string
  a_password :: string
  a_server_id :: int
  a_ranking :: "int option"
  a_cookies :: pyval

record Group =
  g_id :: string
  g_name :: string
  g_description :: "string option"
  g_account_ids :: pyval
  g_ranking :: "int option"

subsection \<open>What sqlite3 accepts and returns\<close>

text \<open>
  \<open>utf8\<close> tells whether a byte string is well-formed UTF-8 (no overlong form, no
  surrogate, nothing above U+10FFFF). \<open>sqlite3\<close> returns a stored \<open>TEXT\<close> value as a
  \<open>str\<close> and raises \<open>OperationalError\<close> when its bytes are not UTF-8; it binds a
  \<open>str\<close> parameter by its UTF-8 encoding (\<open>UnicodeEncodeError\<close> when there is none) and
  an \<open>int\<close> parameter as a 64-bit integer (\<open>OverflowError\<close> outside the range).
\<close>

definition byte :: "char \<Rightarrow> nat" where
  "byte c = of_char c"

definition in_bytes :: "nat \<Rightarrow> nat \<Rightarrow> char \<Rightarrow> bool" where
  "in_bytes lo hi c = (lo \<le> byte c \<and> byte c \<le> hi)"

fun utf8 :: "string \<Rightarrow> bool" where
  "utf8 [] = True"
| "utf8 (a # s) =
     (if byte a < 0x80 then utf8 s
      else if in_bytes 0xC2 0xDF a then
        (case s of
           b # s1 \<Rightarrow> in_bytes 0x80 0xBF b \<and> utf8 s1
         | _ \<Rightarrow> False)
      else if in_bytes 0xE0 0xEF a then
        (case s of
           b # c # s2 \<Rightarrow>
             in_bytes (if byte a = 0xE0 then 0xA0 else 0x80)
                      (if byte a = 0xED then 0x9F else 0xBF) b \<and>
             in_bytes 0x80 0xBF c \<and> utf8 s2
         | _ \<Rightarrow> False)
      else if in_bytes 0xF0 0xF4 a then
        (case s of
           b # c # d # s3 \<Rightarrow>
             in_bytes (if byte a = 0xF0 then 0x90 else 0x80)
                      (if byte a = 0xF4 then 0x8F else 0xBF) b \<and>
             in_bytes 0x80 0xBF c \<and> in_bytes 0x80 0xBF d \<and> utf8 s3
         | _ \<Rightarrow> False)
      else False)"

definition in_int64 :: "int \<Rightarrow> bool" where
  "in_int64 n = (- (2 ^ 63) \<le> n \<and> n < 2 ^ 63)"

definition bind_text :: "string \<Rightarrow> error option" where
  "bind_text s =
     (if utf8 s then None else Some (UnicodeEncodeError ''surrogates not allowed''))"

definition bind_int :: "int \<Rightarrow> error option" where
  "bind_int n =
     (if in_int64 n then None
      else Some (OverflowError ''Python int too large to convert to SQLite INTEGER''))"

text \<open>\<open>None\<close> binds as \<open>NULL\<close>.\<close>

fun bind_opt :: "('a \<Rightarrow> error option) \<Rightarrow> 'a option \<Rightarrow> error option" where
  "bind_opt f None = None"
| "bind_opt f (Some x) = f x"

text \<open>The parameters are bound from left to right; the first failure is raised.\<close>

fun first_error :: "error option list \<Rightarrow> error option" where
  "first_error [] = None"
| "first_error (None # es) = first_error es"
| "first_error (Some e # es) = Some e"

definition decode_error :: error where
  "decode_error = OperationalError ''Could not decode to UTF-8 column''"

subsection \<open>SQLite backend\<close>

text \<open>
  A row of each table, with the column types of \<open>ensure_schema\<close>: \<open>NULL\<close> is
  \<open>None\<close> in the nullable columns. A table is the list of its rows; a table that was
  never created is \<open>None\<close>.
\<close>

record account_row =
  ar_id :: string
  ar_role_name :: string
  ar_user_name :: string
  ar_password :: string
  ar_server_id :: int
  ar_ranking :: "int option"
  ar_cookies :: "string option"

record group_row =
  gr_id :: string
  gr_name :: string
  gr_description :: "string option"
  gr_account_ids :: string
  gr_ranking :: "int option"

record sqlite_db =
  accounts_tbl :: "account_row list option"
  groups_tbl :: "group_row list option"

text \<open>
  \<open>s_conn\<close> is \<open>self.conn\<close>: \<open>None\<close> before \<open>connect\<close> and after
  \<open>close\<close>, otherwise the connection, which stands for the content of the database
  file at \<open>s_path\<close>.
\<close>

record SqliteBackend =
  s_path :: string
  s_conn :: "sqlite_db option"

definition not_connected :: error where
  "not_connected = RuntimeError ''Not connected''"

definition no_such_table :: "string \<Rightarrow> error" where
  "no_such_table t = OperationalError (''no such table: '' @ t)"

text \<open>\<^verbatim>\<open>CREATE TABLE IF NOT EXISTS\<close> for both tables.\<close>

definition create_if_not_exists :: "'r list option \<Rightarrow> 'r list option" where
  "create_if_not_exists t = (case t of None \<Rightarrow> Some [] | Some rows \<Rightarrow> Some rows)"

definition sqlite_ensure_schema :: "SqliteBackend \<Rightarrow> error + SqliteBackend" where
  "sqlite_ensure_schema b =
     (case s_conn b of
        None \<Rightarrow> Inl not_connected
      | Some db \<Rightarrow> Inr (b\<lparr>s_conn := Some
          \<lparr>accounts_tbl = create_if_not_exists (accounts_tbl db),
           groups_tbl = create_if_not_exists (groups_tbl db)\<rparr>\<rparr>))"

text \<open>
  Fetching a row converts each of its \<open>TEXT\<close> values to a \<open>str\<close>.
\<close>

definition account_row_decodes :: "account_row \<Rightarrow> bool" where
  "account_row_decodes row =
     (utf8 (ar_id row) \<and> utf8 (ar_role_name row) \<and> utf8 (ar_user_name row) \<and>
      utf8 (ar_password row) \<and> (case ar_cookies row of None \<Rightarrow> True | Some txt \<Rightarrow> utf8 txt))"

definition group_row_decodes :: "group_row \<Rightarrow> bool" where
  "group_row_decodes row =
     (utf8 (gr_id row) \<and> utf8 (gr_name row) \<and>
      (case gr_description row of None \<Rightarrow> True | Some txt \<Rightarrow> utf8 txt) \<and>
      utf8 (gr_account_ids row))"

text \<open>
  The body of the loop of \<open>read_accounts\<close>: the cookies text is decoded when it is
  truthy (neither \<open>NULL\<close> nor empty); \<open>JSONDecodeError\<close> leaves \<open>None\<close>, any other
  exception of \<open>json.loads\<close> leaves the loop.
\<close>

definition account_of_row :: "account_row \<Rightarrow> pyval \<Rightarrow> Account" where
  "account_of_row row cookies =
     \<lparr>a_id = ar_id row, a_role_name = ar_role_name row,
      a_user_name = ar_user_name row, a_password = ar_password row,
      a_server_id = ar_server_id row, a_ranking = ar_ranking row,
      a_cookies = cookies\<rparr>"

definition row_to_account :: "libs \<Rightarrow> account_row \<Rightarrow> error + Account" where
  "row_to_account L row =
     (case ar_cookies row of
        None \<Rightarrow> Inr (account_of_row row PNone)
      | Some txt \<Rightarrow>
          if txt = [] then Inr (account_of_row row PNone)
          else (case loads L txt of
                  Decoded v \<Rightarrow> Inr (account_of_row row v)
                | JSONDecodeError \<Rightarrow> Inr (account_of_row row PNone)
                | Raised e \<Rightarrow> Inl e))"

text \<open>The loop over the cursor: the rows in order, until one raises.\<close>

fun sqlite_fetch_accounts :: "libs \<Rightarrow> account_row list \<Rightarrow> error + Account list" where
  "sqlite_fetch_accounts L [] = Inr []"
| "sqlite_fetch_accounts L (row # rows) =
     (if \<not> account_row_decodes row then Inl decode_error
      else (case row_to_account L row of
              Inl e \<Rightarrow> Inl e
            | Inr acc \<Rightarrow>
                (case sqlite_fetch_accounts L rows of
                   Inl e \<Rightarrow> Inl e
                 | Inr accounts \<Rightarrow> Inr (acc # accounts))))"

definition sqlite_read_accounts :: "libs \<Rightarrow> SqliteBackend \<Rightarrow> error + Account list" where
  "sqlite_read_accounts L b =
     (case s_conn b of
        None \<Rightarrow> Inl not_connected
      | Some db \<Rightarrow>
          (case accounts_tbl db of
             None \<Rightarrow> Inl (no_such_table ''accounts'')
           | Some rows \<Rightarrow> sqlite_fetch_accounts L (sort_key ar_id rows)))"

definition group_of_row :: "group_row \<Rightarrow> pyval \<Rightarrow> Group" where
  "group_of_row row account_ids =
     \<lparr>g_id = gr_id row, g_name = gr_name row,
      g_description = gr_description row, g_account_ids = account_ids,
      g_ranking = gr_ranking row\<rparr>"

definition row_to_group :: "libs \<Rightarrow> group_row \<Rightarrow> error + Group" where
  "row_to_group L row =
     (if gr_account_ids row = [] then Inr (group_of_row row (PList []))
      else (case loads L (gr_account_ids row) of
              Decoded v \<Rightarrow> Inr (group_of_row row v)
            | JSONDecodeError \<Rightarrow> Inr (group_of_row row (PList []))
            | Raised e \<Rightarrow> Inl e))"

fun sqlite_fetch_groups :: "libs \<Rightarrow> group_row list \<Rightarrow> error + Group list" where
  "sqlite_fetch_groups L [] = Inr []"
| "sqlite_fetch_groups L (row # rows) =
     (if \<not> group_row_decodes row then Inl decode_error
      else (case row_to_group L row of
              Inl e \<Rightarrow> Inl e
            | Inr grp \<Rightarrow>
                (case sqlite_fetch_groups L rows of
                   Inl e \<Rightarrow> Inl e
                 | Inr groups \<Rightarrow> Inr (grp # groups))))"

definition sqlite_read_groups :: "libs \<Rightarrow> SqliteBackend \<Rightarrow> error + Group list" where
  "sqlite_read_groups L b =
     (case s_conn b of
        None \<Rightarrow> Inl not_connected
      | Some db \<Rightarrow>
          (case groups_tbl db of
             None \<Rightarrow> Inl (no_such_table ''groups'')
           | Some rows \<Rightarrow> sqlite_fetch_groups L (sort_key gr_id rows)))"

text \<open>
  \<^verbatim>\<open>INSERT OR REPLACE\<close> on a table whose primary key is \<open>key\<close>: the rows in
  conflict with the new one are deleted, then the new row is inserted.
\<close>

definition insert_or_replace :: "('r \<Rightarrow> string) \<Rightarrow> 'r \<Rightarrow> 'r list \<Rightarrow> 'r list" where
  "insert_or_replace key new rows = filter (\<lambda>r. key r \<noteq> key new) rows @ [new]"

text \<open>
  \<^verbatim>\<open>json.dumps(acc.cookies) if acc.cookies else None\<close>, then the row that
  \<open>execute\<close> is given and the binding of its seven parameters.
\<close>

definition cookies_json :: "libs \<Rightarrow> Account \<Rightarrow> error + string option" where
  "cookies_json L acc =
     (if truthy (a_cookies acc) then
        (case dumps L (a_cookies acc) of Inl e \<Rightarrow> Inl e | Inr txt \<Rightarrow> Inr (Some txt))
      else Inr None)"

definition account_to_row :: "Account \<Rightarrow> string option \<Rightarrow> account_row" where
  "account_to_row acc cj =
     \<lparr>ar_id = a_id acc, ar_role_name = a_role_name acc,
      ar_user_name = a_user_name acc, ar_password = a_password acc,
      ar_server_id = a_server_id acc, ar_ranking = a_ranking acc,
      ar_cookies = cj\<rparr>"

definition bind_account :: "Account \<Rightarrow> string option \<Rightarrow> error option" where
  "bind_account acc cj =
     first_error
       [bind_text (a_id acc), bind_text (a_role_name acc), bind_text (a_user_name acc),
        bind_text (a_password acc), bind_int (a_server_id acc),
        bind_opt bind_int (a_ranking acc), bind_opt bind_text cj]"

text \<open>
  The loop of \<open>write_accounts\<close>, one \<open>execute\<close> for each account in list order: the
  statement is prepared (the table must exist), then its parameters are bound.
\<close>

fun sqlite_insert_accounts :: "libs \<Rightarrow> Account list \<Rightarrow> sqlite_db \<Rightarrow> error + sqlite_db" where
  "sqlite_insert_accounts L [] db = Inr db"
| "sqlite_insert_accounts L (acc # accounts) db =
     (case cookies_json L acc of
        Inl e \<Rightarrow> Inl e
      | Inr cj \<Rightarrow>
          (case accounts_tbl db of
             None \<Rightarrow> Inl (no_such_table ''accounts'')
           | Some rows \<Rightarrow>
               (case bind_account acc cj of
                  Some e \<Rightarrow> Inl e
                | None \<Rightarrow>
                    sqlite_insert_accounts L accounts
                      (db\<lparr>accounts_tbl :=
                         Some (insert_or_replace ar_id (account_to_row acc cj) rows)\<rparr>))))"

text \<open>
  An exception leaves the transaction without its \<open>commit\<close>, so the stored state is the
  old one; the caller keeps its backend value in that case.
\<close>

definition sqlite_write_accounts ::
  "libs \<Rightarrow> Account list \<Rightarrow> SqliteBackend \<Rightarrow> error + SqliteBackend" where
  "sqlite_write_accounts L accounts b =
     (case s_conn b of
        None \<Rightarrow> Inl not_connected
      | Some db \<Rightarrow>
          (case sqlite_insert_accounts L accounts db of
             Inl e \<Rightarrow> Inl e
           | Inr db' \<Rightarrow> Inr (b\<lparr>s_conn := Some db'\<rparr>)))"

definition group_to_row :: "Group \<Rightarrow> string \<Rightarrow> group_row" where
  "group_to_row grp aj =
     \<lparr>gr_id = g_id grp, gr_name = g_name grp,
      gr_description = g_description grp, gr_account_ids = aj,
      gr_ranking = g_ranking grp\<rparr>"

definition bind_group :: "Group \<Rightarrow> string \<Rightarrow> error option" where
  "bind_group grp aj =
     first_error
       [bind_text (g_id grp), bind_text (g_name grp), bind_opt bind_text (g_description grp),
        bind_text aj, bind_opt bind_int (g_ranking grp)]"

fun sqlite_insert_groups :: "libs \<Rightarrow> Group list \<Rightarrow> sqlite_db \<Rightarrow> error + sqlite_db" where
  "sqlite_insert_groups L [] db = Inr db"
| "sqlite_insert_groups L (grp # groups) db =
     (case dumps L (g_account_ids grp) of
        Inl e \<Rightarrow> Inl e
      | Inr aj \<Rightarrow>
          (case groups_tbl db of
             None \<Rightarrow> Inl (no_such_table ''groups'')
           | Some rows \<Rightarrow>
               (case bind_group grp aj of
                  Some e \<Rightarrow> Inl e
                | None \<Rightarrow>
                    sqlite_insert_groups L groups
                      (db\<lparr>groups_tbl :=
                         Some (insert_or_replace gr_id (group_to_row grp aj) rows)\<rparr>))))"

definition sqlite_write_groups ::
  "libs \<Rightarrow> Group list \<Rightarrow> SqliteBackend \<Rightarrow> error + SqliteBackend" where
  "sqlite_write_groups L groups b =
     (case s_conn b of
        None \<Rightarrow> Inl not_connected
      | Some db \<Rightarrow>
          (case sqlite_insert_groups L groups db of
             Inl e \<Rightarrow> Inl e
           | Inr db' \<Rightarrow> Inr (b\<lparr>s_conn := Some db'\<rparr>)))"

subsection \<open>MongoDB backend\<close>

text \<open>
  A field of a stored document is absent or present; \<open>get\<close> is \<^verbatim>\<open>doc.get(key, default)\<close>.
  A present \<open>ranking\<close> or \<open>description\<close> may hold \<open>null\<close> (\<open>Present None\<close>), a
  present \<open>cookies\<close> or \<open>account_ids\<close> any value (\<open>null\<close> is \<open>Present PNone\<close>).
  Every document has its \<open>_id\<close>.
\<close>

datatype 'a field = Absent | Present 'a

fun get :: "'a field \<Rightarrow> 'a \<Rightarrow> 'a" where
  "get Absent dflt = dflt"
| "get (Present v) dflt = v"

record account_doc =
  ad_id :: string
  ad_role_name :: "string field"
  ad_user_name :: "string field"
  ad_password :: "string field"
  ad_server_id :: "int field"
  ad_ranking :: "int option field"
  ad_cookies :: "pyval field"

record group_doc =
  gd_id :: string
  gd_name :: "string field"
  gd_description :: "string option field"
  gd_account_ids :: "pyval field"
  gd_ranking :: "int option field"

record mongo_db =
  accounts_coll :: "account_doc list"
  groups_coll :: "group_doc list"

text \<open>
  \<open>m_db\<close> is \<open>self.db\<close> (set and cleared together with \<open>self.client\<close>): \<open>None\<close>, or
  the database handle, which stands for the content of the two collections.
\<close>

record MongoBackend =
  m_uri :: string
  m_database_name :: string
  m_db :: "mongo_db option"

text \<open>
  The guard \<^verbatim>\<open>if not self.db: raise RuntimeError("Not connected")\<close> of the four
  read and write methods. \<open>None\<close> is falsy. For a database handle the test asks the
  handle for its truth value: the exception of \<open>database_bool\<close> leaves the method; were
  the value false, the method would raise \<open>RuntimeError\<close>; only a true value lets the
  method go on with the handle.
\<close>

definition mongo_guard :: "libs \<Rightarrow> MongoBackend \<Rightarrow> error + mongo_db" where
  "mongo_guard L b =
     (case m_db b of
        None \<Rightarrow> Inl not_connected
      | Some db \<Rightarrow>
          (case database_bool L of
             Inl e \<Rightarrow> Inl e
           | Inr truth \<Rightarrow> if \<not> truth then Inl not_connected else Inr db))"

definition mongo_ensure_schema :: "MongoBackend \<Rightarrow> error + MongoBackend" where
  "mongo_ensure_schema b = Inr b"

definition doc_to_account :: "account_doc \<Rightarrow> Account" where
  "doc_to_account doc =
     \<lparr>a_id = ad_id doc,
      a_role_name = get (ad_role_name doc) [],
      a_user_name = get (ad_user_name doc) [],
      a_password = get (ad_password doc) [],
      a_server_id = get (ad_server_id doc) 0,
      a_ranking = get (ad_ranking doc) (Some 0),
      a_cookies = get (ad_cookies doc) PNone\<rparr>"

definition mongo_read_accounts :: "libs \<Rightarrow> MongoBackend \<Rightarrow> error + Account list" where
  "mongo_read_accounts L b =
     (case mongo_guard L b of
        Inl e \<Rightarrow> Inl e
      | Inr db \<Rightarrow> Inr (map doc_to_account (sort_key ad_id (accounts_coll db))))"

definition doc_to_group :: "group_doc \<Rightarrow> Group" where
  "doc_to_group doc =
     \<lparr>g_id = gd_id doc,
      g_name = get (gd_name doc) [],
      g_description = get (gd_description doc) None,
      g_account_ids = get (gd_account_ids doc) (PList []),
      g_ranking = get (gd_ranking doc) (Some 0)\<rparr>"

definition mongo_read_groups :: "libs \<Rightarrow> MongoBackend \<Rightarrow> error + Group list" where
  "mongo_read_groups L b =
     (case mongo_guard L b of
        Inl e \<Rightarrow> Inl e
      | Inr db \<Rightarrow> Inr (map doc_to_group (sort_key gd_id (groups_coll db))))"

text \<open>
  \<^verbatim>\<open>replace_one({"_id": k}, doc, upsert=True)\<close> where \<open>k\<close> is the \<open>_id\<close> of
  \<open>doc\<close>: the first document that matches is replaced by \<open>doc\<close> as a whole; when none
  matches, \<open>doc\<close> is inserted. (What BSON cannot encode is not modelled; the call is
  reached only where the guard lets the method go on.)
\<close>

fun replace_one :: "('d \<Rightarrow> string) \<Rightarrow> 'd \<Rightarrow> 'd list \<Rightarrow> 'd list" where
  "replace_one key doc [] = [doc]"
| "replace_one key doc (d # ds) =
     (if key d = key doc then doc # ds else d # replace_one key doc ds)"

definition account_to_doc :: "Account \<Rightarrow> account_doc" where
  "account_to_doc acc =
     \<lparr>ad_id = a_id acc,
      ad_role_name = Present (a_role_name acc),
      ad_user_name = Present (a_user_name acc),
      ad_password = Present (a_password acc),
      ad_server_id = Present (a_server_id acc),
      ad_ranking = Present (a_ranking acc),
      ad_cookies = (if a_cookies acc \<noteq> PNone then Present (a_cookies acc) else Absent)\<rparr>"

fun mongo_upsert_accounts :: "Account list \<Rightarrow> mongo_db \<Rightarrow> mongo_db" where
  "mongo_upsert_accounts [] db = db"
| "mongo_upsert_accounts (acc # accounts) db =
     mongo_upsert_accounts accounts
       (db\<lparr>accounts_coll := replace_one ad_id (account_to_doc acc) (accounts_coll db)\<rparr>)"

definition mongo_write_accounts ::
  "libs \<Rightarrow> Account list \<Rightarrow> MongoBackend \<Rightarrow> error + MongoBackend" where
  "mongo_write_accounts L accounts b =
     (case mongo_guard L b of
        Inl e \<Rightarrow> Inl e
      | Inr db \<Rightarrow> Inr (b\<lparr>m_db := Some (mongo_upsert_accounts accounts db)\<rparr>))"

definition group_to_doc :: "Group \<Rightarrow> group_doc" where
  "group_to_doc grp =
     \<lparr>gd_id = g_id grp,
      gd_name = Present (g_name grp),
      gd_description = Present (g_description grp),
      gd_account_ids = Present (g_account_ids grp),
      gd_ranking = Present (g_ranking grp)\<rparr>"

fun mongo_upsert_groups :: "Group list \<Rightarrow> mongo_db \<Rightarrow> mongo_db" where
  "mongo_upsert_groups [] db = db"
| "mongo_upsert_groups (grp # groups) db =
     mongo_upsert_groups groups
       (db\<lparr>groups_coll := replace_one gd_id (group_to_doc grp) (groups_coll db)\<rparr>)"

definition mongo_write_groups ::
  "libs \<Rightarrow> Group list \<Rightarrow> MongoBackend \<Rightarrow> error + MongoBackend" where
  "mongo_write_groups L groups b =
     (case mongo_guard L b of
        Inl e \<Rightarrow> Inl e
      | Inr db \<Rightarrow> Inr (b\<lparr>m_db := Some (mongo_upsert_groups groups db)\<rparr>))"

subsection \<open>The backend interface\<close>

datatype StorageBackend = Sqlite SqliteBackend | Mongo MongoBackend

fun ensure_schema :: "StorageBackend \<Rightarrow> error + StorageBackend" where
  "ensure_schema (Sqlite b) = map_sum id Sqlite (sqlite_ensure_schema b)"
| "ensure_schema (Mongo b) = map_sum id Mongo (mongo_ensure_schema b)"

fun read_accounts :: "libs \<Rightarrow> StorageBackend \<Rightarrow> error + Account list" where
  "read_accounts L (Sqlite b) = sqlite_read_accounts L b"
| "read_accounts L (Mongo b) = mongo_read_accounts L b"

fun read_groups :: "libs \<Rightarrow> StorageBackend \<Rightarrow> error + Group list" where
  "read_groups L (Sqlite b) = sqlite_read_groups L b"
| "read_groups L (Mongo b) = mongo_read_groups L b"

fun write_accounts :: "libs \<Rightarrow> Account list \<Rightarrow> StorageBackend \<Rightarrow> error + StorageBackend" where
  "write_accounts L accounts (Sqlite b) = map_sum id Sqlite (sqlite_write_accounts L accounts b)"
| "write_accounts L accounts (Mongo b) = map_sum id Mongo (mongo_write_accounts L accounts b)"

fun write_groups :: "libs \<Rightarrow> Group list \<Rightarrow> StorageBackend \<Rightarrow> error + StorageBackend" where
  "write_groups L groups (Sqlite b) = map_sum id Sqlite (sqlite_write_groups L groups b)"
| "write_groups L groups (Mongo b) = map_sum id Mongo (mongo_write_groups L groups b)"

subsection \<open>What a relational store holds for an id\<close>

definition stored_account_rows :: "SqliteBackend \<Rightarrow> string \<Rightarrow> account_row list" where
  "stored_account_rows b k =
     (case s_conn b of
        None \<Rightarrow> []
      | Some db \<Rightarrow>
          (case accounts_tbl db of None \<Rightarrow> [] | Some rows \<Rightarrow> filter (\<lambda>r. ar_id r = k) rows))"

definition stored_group_rows :: "SqliteBackend \<Rightarrow> string \<Rightarrow> group_row list" where
  "stored_group_rows b k =
     (case s_conn b of
        None \<Rightarrow> []
      | Some db \<Rightarrow>
          (case groups_tbl db of None \<Rightarrow> [] | Some rows \<Rightarrow> filter (\<lambda>r. gr_id r = k) rows))"

subsection \<open>Rows that the relational read gets through\<close>

text \<open>
  The rows on which nothing is raised: the \<open>TEXT\<close> values are UTF-8, and
  \<open>json.loads\<close>, where the loop calls it (on a cookies text that is neither \<open>NULL\<close>
  nor empty, on account ids that are not empty), returns a value or raises
  \<open>JSONDecodeError\<close>.
\<close>

fun caught :: "loads_result \<Rightarrow> bool" where
  "caught (Decoded v) = True"
| "caught JSONDecodeError = True"
| "caught (Raised e) = False"

definition account_row_reads :: "libs \<Rightarrow> account_row \<Rightarrow> bool" where
  "account_row_reads L row =
     (account_row_decodes row \<and>
      (case ar_cookies row of
         None \<Rightarrow> True
       | Some txt \<Rightarrow> txt = [] \<or> caught (loads L txt)))"

definition group_row_reads :: "libs \<Rightarrow> group_row \<Rightarrow> bool" where
  "group_row_reads L row =
     (group_row_decodes row \<and>
      (gr_account_ids row = [] \<or> caught (loads L (gr_account_ids row))))"

subsection \<open>Migration logic\<close>

text \<open>
  \<open>create_backend\<close>: \<^verbatim>\<open>not path\<close> holds for \<open>None\<close> and for the empty string. The
  backend is constructed without a connection: the function takes no store and returns
  none.
\<close>

definition create_backend ::
  "string \<Rightarrow> string option \<Rightarrow> string option \<Rightarrow> string option \<Rightarrow> error + StorageBackend" where
  "create_backend storage_type path uri database =
     (if storage_type = ''sqlite'' then
        (case path of
           Some (c # cs) \<Rightarrow> Inr (Sqlite \<lparr>s_path = c # cs, s_conn = None\<rparr>)
         | _ \<Rightarrow> Inl (ValueError ''SQLite requires --source-path or --target-path''))
      else if storage_type = ''mongodb'' then
        (case (uri, database) of
           (Some (c # cs), Some (d # ds)) \<Rightarrow>
             Inr (Mongo \<lparr>m_uri = c # cs, m_database_name = d # ds, m_db = None\<rparr>)
         | _ \<Rightarrow>
             Inl (ValueError
               ''MongoDB requires --source-uri/--target-uri and --source-db/--target-db''))
      else Inl (ValueError (''Unknown storage type: '' @ storage_type)))"

text \<open>
  \<open>migrate\<close>. The printed text is not modelled, the evaluation of its arguments is:
  \<open>len\<close> may raise. The result holds the exception that ended the run (if any), the
  target after the run, and the calls made on the target, in order.
\<close>

definition strip_cookies :: "Account list \<Rightarrow> Account list" where
  "strip_cookies accounts = map (\<lambda>acc. acc\<lparr>a_cookies := PNone\<rparr>) accounts"

fun log_accounts :: "Account list \<Rightarrow> error + unit" where
  "log_accounts [] = Inr ()"
| "log_accounts (acc # accounts) =
     (if truthy (a_cookies acc) then
        (case py_len (a_cookies acc) of
           Inl e \<Rightarrow> Inl e
         | Inr n \<Rightarrow> log_accounts accounts)
      else log_accounts accounts)"

fun log_groups :: "Group list \<Rightarrow> error + unit" where
  "log_groups [] = Inr ()"
| "log_groups (grp # groups) =
     (case py_len (g_account_ids grp) of
        Inl e \<Rightarrow> Inl e
      | Inr n \<Rightarrow> log_groups groups)"

datatype target_call =
    EnsureSchema
  | WriteAccounts "Account list"
  | WriteGroups "Group list"

record migration =
  raised :: "error option"
  target_after :: StorageBackend
  target_calls :: "target_call list"

definition migrate ::
  "libs \<Rightarrow> StorageBackend \<Rightarrow> StorageBackend \<Rightarrow> bool \<Rightarrow> bool \<Rightarrow> migration" where
  "migrate L source target dry_run skip_cookies =
     (case read_accounts L source of
        Inl e \<Rightarrow> \<lparr>raised = Some e, target_after = target, target_calls = []\<rparr>
      | Inr accounts0 \<Rightarrow>
     (case read_groups L source of
        Inl e \<Rightarrow> \<lparr>raised = Some e, target_after = target, target_calls = []\<rparr>
      | Inr groups \<Rightarrow>
     (let accounts = (if skip_cookies then strip_cookies accounts0 else accounts0) in
     (case log_accounts accounts of
        Inl e \<Rightarrow> \<lparr>raised = Some e, target_after = target, target_calls = []\<rparr>
      | Inr _ \<Rightarrow>
     (case log_groups groups of
        Inl e \<Rightarrow> \<lparr>raised = Some e, target_after = target, target_calls = []\<rparr>
      | Inr _ \<Rightarrow>
     (if dry_run then \<lparr>raised = None, target_after = target, target_calls = []\<rparr>
      else
     (case ensure_schema target of
        Inl e \<Rightarrow> \<lparr>raised = Some e, target_after = target, target_calls = [EnsureSchema]\<rparr>
      | Inr t1 \<Rightarrow>
     (case write_accounts L accounts t1 of
        Inl e \<Rightarrow> \<lparr>raised = Some e, target_after = t1,
                  target_calls = [EnsureSchema, WriteAccounts accounts]\<rparr>
      | Inr t2 \<Rightarrow>
     (case write_groups L groups t2 of
        Inl e \<Rightarrow> \<lparr>raised = Some e, target_after = t2,
                  target_calls = [EnsureSchema, WriteAccounts accounts, WriteGroups groups]\<rparr>
      | Inr t3 \<Rightarrow> \<lparr>raised = None, target_after = t3,
                  target_calls = [EnsureSchema, WriteAccounts accounts, WriteGroups groups]\<rparr>)))))))))"

subsection \<open>Example data\<close>

text \<open>
  Example modules: a \<open>json\<close> that knows three texts, raises \<open>RecursionError\<close> on the
  text of 2000 opening brackets and \<open>JSONDecodeError\<close> on every other text; a
  \<open>pymongo\<close> whose \<open>Database\<close> objects raise \<open>NotImplementedError\<close> when asked for
  their truth value, as those of PyMongo 4 do.
\<close>

definition deep_text :: string where
  "deep_text = replicate 2000 (CHR ''['')"

definition ex_libs :: libs where
  "ex_libs =
     \<lparr>dumps = (\<lambda>v. if v = PList [PDict []] then Inr ''[{}]''
                   else if v = PList [] then Inr ''[]'' else Inr ''null''),
      loads = (\<lambda>s. if s = ''[{}]'' then Decoded (PList [PDict []])
                   else if s = ''[]'' then Decoded (PList [])
                   else if s = ''null'' then Decoded PNone
                   else if s = deep_text then
                     Raised (RecursionError ''maximum recursion depth exceeded'')
                   else JSONDecodeError),
      database_bool =
        Inl (NotImplementedError
          ''Database objects do not implement truth value testing or bool()'')\<rparr>"

text \<open>
  A small store of each kind. The tables and collections are not in id order; the rows
  \<open>a2\<close> and \<open>g2\<close> hold texts that \<open>json\<close> rejects with \<open>JSONDecodeError\<close>, and
  \<open>NULL\<close> rankings; the documents \<open>a1\<close> and \<open>g1\<close> have their \<open>_id\<close> only, the
  documents \<open>a2\<close> and \<open>g2\<close> a null ranking.
\<close>

definition ex_account_rows :: "account_row list" where
  "ex_account_rows =
     [\<lparr>ar_id = ''a2'', ar_role_name = ''guest'', ar_user_name = ''v'', ar_password = ''q'',
       ar_server_id = 2, ar_ranking = None, ar_cookies = Some ''{not json''\<rparr>,
      \<lparr>ar_id = ''a1'', ar_role_name = ''admin'', ar_user_name = ''u'', ar_password = ''p'',
       ar_server_id = 1, ar_ranking = Some 0, ar_cookies = Some ''[{}]''\<rparr>]"

definition ex_group_rows :: "group_row list" where
  "ex_group_rows =
     [\<lparr>gr_id = ''g2'', gr_name = ''H'', gr_description = Some ''second'',
       gr_account_ids = ''[not json'', gr_ranking = None\<rparr>,
      \<lparr>gr_id = ''g1'', gr_name = ''G'', gr_description = None,
       gr_account_ids = ''[]'', gr_ranking = Some 0\<rparr>]"

definition ex_sqlite_db :: sqlite_db where
  "ex_sqlite_db = \<lparr>accounts_tbl = Some ex_account_rows, groups_tbl = Some ex_group_rows\<rparr>"

definition ex_sqlite :: SqliteBackend where
  "ex_sqlite = \<lparr>s_path = ''wardenly.db'', s_conn = Some ex_sqlite_db\<rparr>"

text \<open>
  A relational store with texts on which the read raises: the cookies of \<open>a3\<close> and the
  account ids of \<open>g3\<close> are the deeply nested text, the cookies of \<open>a4\<close> and the account
  ids of \<open>g4\<close> are one byte that is not UTF-8.
\<close>

definition ex_deep_db :: sqlite_db where
  "ex_deep_db =
     \<lparr>accounts_tbl = Some
        [\<lparr>ar_id = ''a3'', ar_role_name = ''admin'', ar_user_name = ''u'', ar_password = ''p'',
          ar_server_id = 1, ar_ranking = Some 0, ar_cookies = Some deep_text\<rparr>],
      groups_tbl = Some
        [\<lparr>gr_id = ''g3'', gr_name = ''G'', gr_description = None,
          gr_account_ids = deep_text, gr_ranking = Some 0\<rparr>]\<rparr>"

definition ex_raw_db :: sqlite_db where
  "ex_raw_db =
     \<lparr>accounts_tbl = Some
        [\<lparr>ar_id = ''a4'', ar_role_name = ''admin'', ar_user_name = ''u'', ar_password = ''p'',
          ar_server_id = 1, ar_ranking = Some 0, ar_cookies = Some [CHR 0xFF]\<rparr>],
      groups_tbl = Some
        [\<lparr>gr_id = ''g4'', gr_name = ''G'', gr_description = None,
          gr_account_ids = [CHR 0xFF], gr_ranking = Some 0\<rparr>]\<rparr>"

definition ex_sqlite_deep :: SqliteBackend where
  "ex_sqlite_deep = \<lparr>s_path = ''deep.db'', s_conn = Some ex_deep_db\<rparr>"

definition ex_sqlite_raw :: SqliteBackend where
  "ex_sqlite_raw = \<lparr>s_path = ''raw.db'', s_conn = Some ex_raw_db\<rparr>"

definition ex_mongo_db :: mongo_db where
  "ex_mongo_db =
     \<lparr>accounts_coll =
        [\<lparr>ad_id = ''a2'', ad_role_name = Present ''guest'', ad_user_name = Present ''v'',
          ad_password = Present ''q'', ad_server_id = Present 2, ad_ranking = Present None,
          ad_cookies = Present (PList [PDict []])\<rparr>,
         \<lparr>ad_id = ''a1'', ad_role_name = Absent, ad_user_name = Absent,
          ad_password = Absent, ad_server_id = Absent, ad_ranking = Absent,
          ad_cookies = Absent\<rparr>],
      groups_coll =
        [\<lparr>gd_id = ''g2'', gd_name = Present ''H'', gd_description = Present (Some ''second''),
          gd_account_ids = Present (PList [PStr ''a2'']), gd_ranking = Present None\<rparr>,
         \<lparr>gd_id = ''g1'', gd_name = Absent, gd_description = Absent,
          gd_account_ids = Absent, gd_ranking = Absent\<rparr>]\<rparr>"

definition ex_mongo :: MongoBackend where
  "ex_mongo =
     \<lparr>m_uri = ''mongodb://localhost:27017'', m_database_name = ''wardenly'',
      m_db = Some ex_mongo_db\<rparr>"

text \<open>Two versions of an account and of a group with the same id.\<close>

definition ex_account_v1 :: Account where
  "ex_account_v1 =
     \<lparr>a_id = ''a1'', a_role_name = ''admin'', a_user_name = ''u'', a_password = ''p'',
      a_server_id = 1, a_ranking = Some 0, a_cookies = PList [PDict []]\<rparr>"

definition ex_account_v2 :: Account where
  "ex_account_v2 =
     \<lparr>a_id = ''a1'', a_role_name = ''root'', a_user_name = ''w'', a_password = ''r'',
      a_server_id = 3, a_ranking = Some 7, a_cookies = PList []\<rparr>"

definition ex_group_v1 :: Group where
  "ex_group_v1 =
     \<lparr>g_id = ''g1'', g_name = ''G'', g_description = Some ''first'',
      g_account_ids = PList [], g_ranking = Some 0\<rparr>"

definition ex_group_v2 :: Group where
  "ex_group_v2 =
     \<lparr>g_id = ''g1'', g_name = ''G2'', g_description = None,
      g_account_ids = PList [PDict []], g_ranking = Some 5\<rparr>"

lemmas ex_defs =
  ex_libs_def ex_account_rows_def ex_group_rows_def ex_sqlite_db_def ex_sqlite_def
  ex_deep_db_def ex_raw_db_def ex_sqlite_deep_def ex_sqlite_raw_def ex_mongo_db_def ex_mongo_def ex_account_v1_def
  ex_account_v2_def ex_group_v1_def ex_group_v2_def

lemmas eval_defs =
  byte_def in_bytes_def in_int64_def bind_text_def bind_int_def decode_error_def
  account_row_decodes_def group_row_decodes_def account_of_row_def group_of_row_def
  row_to_account_def row_to_group_def cookies_json_def account_to_row_def group_to_row_def
  bind_account_def bind_group_def insert_or_replace_def not_connected_def

section \<open>Properties\<close>

subsection \<open>The example texts\<close>

lemma deep_text_length: "length deep_text = 2000"
  by (simp add: deep_text_def)

lemma not_deep_text [simp]: "length s < 2000 \<Longrightarrow> (s = deep_text) = False"
  using deep_text_length by auto

lemma deep_text_not [simp]: "length s < 2000 \<Longrightarrow> (deep_text = s) = False"
  using deep_text_length by auto

lemma deep_text_not_empty [simp]: "deep_text \<noteq> []"
  using deep_text_length by auto

lemma utf8_replicate_ascii: "byte c < 0x80 \<Longrightarrow> utf8 (replicate n c)"
  by (induction n) simp_all

lemma utf8_deep_text [simp]: "utf8 deep_text"
  unfolding deep_text_def by (rule utf8_replicate_ascii) (simp add: byte_def)

subsection \<open>Binding\<close>

lemma first_error_None: "first_error es = None \<longleftrightarrow> (\<forall>e\<in>set es. e = None)"
  by (induction es rule: first_error.induct) auto

lemma bind_account_None:
  "bind_account acc cj = None \<longleftrightarrow>
     utf8 (a_id acc) \<and> utf8 (a_role_name acc) \<and> utf8 (a_user_name acc) \<and>
     utf8 (a_password acc) \<and> in_int64 (a_server_id acc) \<and>
     (case a_ranking acc of None \<Rightarrow> True | Some r \<Rightarrow> in_int64 r) \<and>
     (case cj of None \<Rightarrow> True | Some txt \<Rightarrow> utf8 txt)"
  by (auto simp: bind_account_def first_error_None bind_text_def bind_int_def
      split: option.splits)

lemma bind_group_None:
  "bind_group grp aj = None \<longleftrightarrow>
     utf8 (g_id grp) \<and> utf8 (g_name grp) \<and>
     (case g_description grp of None \<Rightarrow> True | Some txt \<Rightarrow> utf8 txt) \<and> utf8 aj \<and>
     (case g_ranking grp of None \<Rightarrow> True | Some r \<Rightarrow> in_int64 r)"
  by (auto simp: bind_group_def first_error_None bind_text_def bind_int_def
      split: option.splits)

subsection \<open>Cookies: absent or empty\<close>

text \<open>
  Claim C1 says that an account written with \<open>cookies = []\<close> is read back with
  \<open>cookies = []\<close> on either backend kind. The relational backend does not do so:
  \<open>write_accounts\<close> stores \<open>NULL\<close> for every falsy \<open>cookies\<close>, the empty list
  included, and \<open>read_accounts\<close> returns \<open>None\<close> for it. This holds for every account
  whose parameters bind (its strings are UTF-8, its integers fit 64 bits) and for all
  modules.
\<close>

theorem sqlite_empty_cookies_read_back_as_none:
  "bind_account acc None = None \<longrightarrow>
     (\<exists>b'. sqlite_write_accounts L [acc\<lparr>a_cookies := PList []\<rparr>]
             \<lparr>s_path = p, s_conn = Some \<lparr>accounts_tbl = Some [], groups_tbl = Some []\<rparr>\<rparr> =
               Inr b' \<and>
           sqlite_read_accounts L b' = Inr [acc\<lparr>a_cookies := PNone\<rparr>])"
proof
  assume h: "bind_account acc None = None"
  then have b: "bind_account (acc\<lparr>a_cookies := PList []\<rparr>) None = None"
    by (simp add: bind_account_def)
  from h have d: "account_row_decodes (account_to_row (acc\<lparr>a_cookies := PList []\<rparr>) None)"
    by (simp add: bind_account_None account_row_decodes_def account_to_row_def)
  have c: "cookies_json L (acc\<lparr>a_cookies := PList []\<rparr>) = Inr None"
    by (simp add: cookies_json_def)
  have r: "row_to_account L (account_to_row (acc\<lparr>a_cookies := PList []\<rparr>) None) =
      Inr (acc\<lparr>a_cookies := PNone\<rparr>)"
    by (simp add: row_to_account_def account_to_row_def account_of_row_def)
  show "\<exists>b'. sqlite_write_accounts L [acc\<lparr>a_cookies := PList []\<rparr>]
             \<lparr>s_path = p, s_conn = Some \<lparr>accounts_tbl = Some [], groups_tbl = Some []\<rparr>\<rparr> =
               Inr b' \<and>
           sqlite_read_accounts L b' = Inr [acc\<lparr>a_cookies := PNone\<rparr>]"
    by (simp add: sqlite_write_accounts_def sqlite_read_accounts_def insert_or_replace_def
        b c d r)
qed

theorem sqlite_empty_cookies_read_back_as_none_witness:
  "bind_account ex_account_v2 None = None \<and>
   (\<exists>b'. sqlite_write_accounts ex_libs
           [\<lparr>a_id = ''a1'', a_role_name = ''root'', a_user_name = ''w'', a_password = ''r'',
             a_server_id = 3, a_ranking = Some 7, a_cookies = PList []\<rparr>]
           \<lparr>s_path = ''wardenly.db'',
            s_conn = Some \<lparr>accounts_tbl = Some [], groups_tbl = Some []\<rparr>\<rparr> = Inr b' \<and>
         sqlite_read_accounts ex_libs b' =
           Inr [\<lparr>a_id = ''a1'', a_role_name = ''root'', a_user_name = ''w'', a_password = ''r'',
                 a_server_id = 3, a_ranking = Some 7, a_cookies = PNone\<rparr>])"
proof -
  have h: "bind_account ex_account_v2 None = None"
    by (simp add: ex_defs eval_defs)
  from sqlite_empty_cookies_read_back_as_none [of ex_account_v2 ex_libs "''wardenly.db''"] h
  show ?thesis
    by (simp add: ex_account_v2_def)
qed

subsection \<open>Dry run\<close>

text \<open>
  Claim C5. A run of \<open>migrate\<close> with \<open>dry_run = True\<close> makes no call on the target
  (none of \<open>ensure_schema\<close>, \<open>write_accounts\<close>, \<open>write_groups\<close>), and the target
  after the run is the target before it, whatever the source and the target are and
  whether the run ends normally or with an exception.
\<close>

theorem dry_run_leaves_target:
  "target_calls (migrate L source target True skip_cookies) = [] \<and>
   target_after (migrate L source target True skip_cookies) = target"
  by (simp add: migrate_def Let_def split: sum.splits)

subsection \<open>Backend factory\<close>

text \<open>
  Claim C7, as amended. \<open>create_backend\<close> with the relational kind and a path that is
  missing or empty, or with the document kind and an endpoint or a database name that is
  missing or empty, returns the configuration error (a \<open>ValueError\<close>); with every
  required parameter present and not empty it returns the backend of the requested kind,
  not yet connected. No store is read or written: the function has none in its arguments
  or its result.
\<close>

theorem create_backend_validates:
  "((path = None \<or> path = Some []) \<longrightarrow>
      create_backend ''sqlite'' path uri database =
        Inl (ValueError ''SQLite requires --source-path or --target-path'')) \<and>
   ((uri = None \<or> uri = Some [] \<or> database = None \<or> database = Some []) \<longrightarrow>
      create_backend ''mongodb'' path uri database =
        Inl (ValueError
          ''MongoDB requires --source-uri/--target-uri and --source-db/--target-db'')) \<and>
   (p \<noteq> [] \<longrightarrow>
      create_backend ''sqlite'' (Some p) uri database = Inr (Sqlite \<lparr>s_path = p, s_conn = None\<rparr>)) \<and>
   (u \<noteq> [] \<and> d \<noteq> [] \<longrightarrow>
      create_backend ''mongodb'' path (Some u) (Some d) =
        Inr (Mongo \<lparr>m_uri = u, m_database_name = d, m_db = None\<rparr>))"
  by (auto simp: create_backend_def split: option.splits list.splits)

theorem create_backend_validates_witness:
  "create_backend ''sqlite'' None (Some ''mongodb://h'') (Some ''w'') =
     Inl (ValueError ''SQLite requires --source-path or --target-path'') \<and>
   create_backend ''mongodb'' None (Some ''mongodb://h'') None =
     Inl (ValueError ''MongoDB requires --source-uri/--target-uri and --source-db/--target-db'') \<and>
   create_backend ''sqlite'' (Some ''w.db'') None None =
     Inr (Sqlite \<lparr>s_path = ''w.db'', s_conn = None\<rparr>) \<and>
   create_backend ''mongodb'' None (Some ''mongodb://h'') (Some ''w'') =
     Inr (Mongo \<lparr>m_uri = ''mongodb://h'', m_database_name = ''w'', m_db = None\<rparr>)"
  using create_backend_validates [of None "Some ''mongodb://h''" "Some ''w''" "''w.db''" "''mongodb://h''" "''w''"]
    create_backend_validates [of None "Some ''mongodb://h''" None "''w.db''" "''mongodb://h''" "''w''"]
    create_backend_validates [of "Some ''w.db''" None None "''w.db''" "''mongodb://h''" "''w''"]
  by simp

text \<open>
  The claim C7 as written fails for a parameter that is present and empty: the path is
  given, and the factory still raises.
\<close>

theorem create_backend_empty_path_counterexample:
  "create_backend ''sqlite'' (Some []) None None =
     Inl (ValueError ''SQLite requires --source-path or --target-path'')"
  by (simp add: create_backend_def)

subsection \<open>The relational reads\<close>

lemma account_row_reads_iff:
  "account_row_reads L row \<longleftrightarrow> account_row_decodes row \<and> \<not> isl (row_to_account L row)"
  by (auto simp: account_row_reads_def row_to_account_def
      split: option.splits loads_result.splits)

lemma group_row_reads_iff:
  "group_row_reads L row \<longleftrightarrow> group_row_decodes row \<and> \<not> isl (row_to_group L row)"
  by (auto simp: group_row_reads_def row_to_group_def split: loads_result.splits)

lemma sqlite_fetch_accounts_returns:
  "(\<forall>r\<in>set rows. account_row_reads L r) \<Longrightarrow>
   sqlite_fetch_accounts L rows = Inr (map (\<lambda>r. projr (row_to_account L r)) rows)"
  by (induction rows) (auto simp: account_row_reads_iff split: sum.splits)

lemma sqlite_fetch_groups_returns:
  "(\<forall>r\<in>set rows. group_row_reads L r) \<Longrightarrow>
   sqlite_fetch_groups L rows = Inr (map (\<lambda>r. projr (row_to_group L r)) rows)"
  by (induction rows) (auto simp: group_row_reads_iff split: sum.splits)

lemma sqlite_fetch_accounts_raises:
  "row \<in> set rows \<Longrightarrow> \<not> account_row_reads L row \<Longrightarrow> \<exists>e. sqlite_fetch_accounts L rows = Inl e"
  by (induction rows) (auto simp: account_row_reads_iff split: sum.splits)

lemma sqlite_fetch_groups_raises:
  "row \<in> set rows \<Longrightarrow> \<not> group_row_reads L row \<Longrightarrow> \<exists>e. sqlite_fetch_groups L rows = Inl e"
  by (induction rows) (auto simp: group_row_reads_iff split: sum.splits)

lemma row_to_account_fields:
  "row_to_account L row = Inr acc \<Longrightarrow>
   a_id acc = ar_id row \<and> a_role_name acc = ar_role_name row \<and>
   a_user_name acc = ar_user_name row \<and> a_password acc = ar_password row \<and>
   a_server_id acc = ar_server_id row \<and> a_ranking acc = ar_ranking row"
  by (auto simp: row_to_account_def account_of_row_def
      split: option.splits if_splits loads_result.splits)

lemma row_to_group_fields:
  "row_to_group L row = Inr grp \<Longrightarrow>
   g_id grp = gr_id row \<and> g_name grp = gr_name row \<and>
   g_description grp = gr_description row \<and> g_ranking grp = gr_ranking row"
  by (auto simp: row_to_group_def group_of_row_def split: if_splits loads_result.splits)

lemma sqlite_fetch_accounts_fields:
  "sqlite_fetch_accounts L rows = Inr accs \<Longrightarrow>
   map a_id accs = map ar_id rows \<and> map a_ranking accs = map ar_ranking rows"
proof (induction rows arbitrary: accs)
  case Nil
  then show ?case by simp
next
  case (Cons row rows)
  then show ?case
    by (auto split: if_splits sum.splits dest: row_to_account_fields)
qed

lemma sqlite_fetch_groups_fields:
  "sqlite_fetch_groups L rows = Inr gs \<Longrightarrow>
   map g_id gs = map gr_id rows \<and> map g_ranking gs = map gr_ranking rows"
proof (induction rows arbitrary: gs)
  case Nil
  then show ?case by simp
next
  case (Cons row rows)
  then show ?case
    by (auto split: if_splits sum.splits dest: row_to_group_fields)
qed

lemma relational_reads_sorted:
  "(sqlite_read_accounts L b = Inr accs \<longrightarrow> sorted (map a_id accs)) \<and>
   (sqlite_read_groups L b = Inr gs \<longrightarrow> sorted (map g_id gs))"
  by (auto simp: sqlite_read_accounts_def sqlite_read_groups_def
      split: option.splits
      dest!: sqlite_fetch_accounts_fields sqlite_fetch_groups_fields)




text \<open>
  Claim C6, as amended. On the relational backend, a stored account row whose cookies text
  makes \<open>json.loads\<close> raise \<open>JSONDecodeError\<close> is returned by \<open>read_accounts\<close>
  with \<open>cookies = None\<close> and its other columns as stored, and a stored group row whose
  \<open>account_ids\<close> text does so is returned by \<open>read_groups\<close> with
  \<open>account_ids = []\<close>, provided that nothing is raised on any row of the table. A row
  with a \<open>TEXT\<close> value that is not UTF-8, or with a text on which \<open>json.loads\<close>
  raises another exception, makes the whole read raise: only \<open>JSONDecodeError\<close> is
  caught.
\<close>

theorem undecodable_text_reads_as_absent:
  "(s_conn b = Some db \<and> accounts_tbl db = Some rows \<and>
    (\<forall>r\<in>set rows. account_row_reads L r) \<and> row \<in> set rows \<and>
    ar_cookies row = Some txt \<and> loads L txt = JSONDecodeError \<longrightarrow>
      (\<exists>accs. sqlite_read_accounts L b = Inr accs \<and>
         \<lparr>a_id = ar_id row, a_role_name = ar_role_name row, a_user_name = ar_user_name row,
          a_password = ar_password row, a_server_id = ar_server_id row,
          a_ranking = ar_ranking row, a_cookies = PNone\<rparr> \<in> set accs)) \<and>
   (s_conn b = Some db \<and> groups_tbl db = Some grows \<and>
    (\<forall>r\<in>set grows. group_row_reads L r) \<and> grow \<in> set grows \<and>
    loads L (gr_account_ids grow) = JSONDecodeError \<longrightarrow>
      (\<exists>gs. sqlite_read_groups L b = Inr gs \<and>
         \<lparr>g_id = gr_id grow, g_name = gr_name grow, g_description = gr_description grow,
          g_account_ids = PList [], g_ranking = gr_ranking grow\<rparr> \<in> set gs)) \<and>
   (s_conn b = Some db \<and> accounts_tbl db = Some rows \<and> row \<in> set rows \<and>
    \<not> account_row_reads L row \<longrightarrow>
      (\<exists>e. sqlite_read_accounts L b = Inl e)) \<and>
   (s_conn b = Some db \<and> groups_tbl db = Some grows \<and> grow \<in> set grows \<and>
    \<not> group_row_reads L grow \<longrightarrow>
      (\<exists>e. sqlite_read_groups L b = Inl e))"
proof (intro conjI impI)
  assume h: "s_conn b = Some db \<and> accounts_tbl db = Some rows \<and>
    (\<forall>r\<in>set rows. account_row_reads L r) \<and> row \<in> set rows \<and>
    ar_cookies row = Some txt \<and> loads L txt = JSONDecodeError"
  then have "\<forall>r\<in>set (sort_key ar_id rows). account_row_reads L r"
    by simp
  then have f: "sqlite_fetch_accounts L (sort_key ar_id rows) =
      Inr (map (\<lambda>r. projr (row_to_account L r)) (sort_key ar_id rows))"
    by (rule sqlite_fetch_accounts_returns)
  from h have "projr (row_to_account L row) =
      \<lparr>a_id = ar_id row, a_role_name = ar_role_name row, a_user_name = ar_user_name row,
       a_password = ar_password row, a_server_id = ar_server_id row,
       a_ranking = ar_ranking row, a_cookies = PNone\<rparr>"
    by (simp add: row_to_account_def account_of_row_def)
  moreover from h have "projr (row_to_account L row) \<in>
      set (map (\<lambda>r. projr (row_to_account L r)) (sort_key ar_id rows))"
    by simp
  ultimately show "\<exists>accs. sqlite_read_accounts L b = Inr accs \<and>
         \<lparr>a_id = ar_id row, a_role_name = ar_role_name row, a_user_name = ar_user_name row,
          a_password = ar_password row, a_server_id = ar_server_id row,
          a_ranking = ar_ranking row, a_cookies = PNone\<rparr> \<in> set accs"
    using h f by (simp add: sqlite_read_accounts_def)
next
  assume h: "s_conn b = Some db \<and> groups_tbl db = Some grows \<and>
    (\<forall>r\<in>set grows. group_row_reads L r) \<and> grow \<in> set grows \<and>
    loads L (gr_account_ids grow) = JSONDecodeError"
  then have "\<forall>r\<in>set (sort_key gr_id grows). group_row_reads L r"
    by simp
  then have f: "sqlite_fetch_groups L (sort_key gr_id grows) =
      Inr (map (\<lambda>r. projr (row_to_group L r)) (sort_key gr_id grows))"
    by (rule sqlite_fetch_groups_returns)
  from h have "projr (row_to_group L grow) =
      \<lparr>g_id = gr_id grow, g_name = gr_name grow, g_description = gr_description grow,
       g_account_ids = PList [], g_ranking = gr_ranking grow\<rparr>"
    by (simp add: row_to_group_def group_of_row_def)
  moreover from h have "projr (row_to_group L grow) \<in>
      set (map (\<lambda>r. projr (row_to_group L r)) (sort_key gr_id grows))"
    by simp
  ultimately show "\<exists>gs. sqlite_read_groups L b = Inr gs \<and>
         \<lparr>g_id = gr_id grow, g_name = gr_name grow, g_description = gr_description grow,
          g_account_ids = PList [], g_ranking = gr_ranking grow\<rparr> \<in> set gs"
    using h f by (simp add: sqlite_read_groups_def)
next
  assume h: "s_conn b = Some db \<and> accounts_tbl db = Some rows \<and> row \<in> set rows \<and>
    \<not> account_row_reads L row"
  then have "row \<in> set (sort_key ar_id rows)"
    by simp
  with h have "\<exists>e. sqlite_fetch_accounts L (sort_key ar_id rows) = Inl e"
    by (blast intro: sqlite_fetch_accounts_raises)
  with h show "\<exists>e. sqlite_read_accounts L b = Inl e"
    by (simp add: sqlite_read_accounts_def)
next
  assume h: "s_conn b = Some db \<and> groups_tbl db = Some grows \<and> grow \<in> set grows \<and>
    \<not> group_row_reads L grow"
  then have "grow \<in> set (sort_key gr_id grows)"
    by simp
  with h have "\<exists>e. sqlite_fetch_groups L (sort_key gr_id grows) = Inl e"
    by (blast intro: sqlite_fetch_groups_raises)
  with h show "\<exists>e. sqlite_read_groups L b = Inl e"
    by (simp add: sqlite_read_groups_def)
qed

theorem undecodable_text_reads_as_absent_witness:
  "loads ex_libs ''{not json'' = JSONDecodeError \<and>
   loads ex_libs ''[not json'' = JSONDecodeError \<and>
   (\<exists>accs. sqlite_read_accounts ex_libs ex_sqlite = Inr accs \<and>
      \<lparr>a_id = ''a2'', a_role_name = ''guest'', a_user_name = ''v'', a_password = ''q'',
       a_server_id = 2, a_ranking = None, a_cookies = PNone\<rparr> \<in> set accs) \<and>
   (\<exists>gs. sqlite_read_groups ex_libs ex_sqlite = Inr gs \<and>
      \<lparr>g_id = ''g2'', g_name = ''H'', g_description = Some ''second'',
       g_account_ids = PList [], g_ranking = None\<rparr> \<in> set gs) \<and>
   (\<exists>e. sqlite_read_accounts ex_libs ex_sqlite_deep = Inl e) \<and>
   (\<exists>e. sqlite_read_groups ex_libs ex_sqlite_deep = Inl e)"
proof -
  have l: "loads ex_libs ''{not json'' = JSONDecodeError"
    "loads ex_libs ''[not json'' = JSONDecodeError"
    by (simp_all add: ex_defs)
  have h: "s_conn ex_sqlite = Some ex_sqlite_db" "accounts_tbl ex_sqlite_db = Some ex_account_rows"
    "groups_tbl ex_sqlite_db = Some ex_group_rows"
    "\<forall>r\<in>set ex_account_rows. account_row_reads ex_libs r"
    "\<forall>r\<in>set ex_group_rows. group_row_reads ex_libs r"
    "hd ex_account_rows \<in> set ex_account_rows" "hd ex_group_rows \<in> set ex_group_rows"
    "ar_cookies (hd ex_account_rows) = Some ''{not json''"
    "gr_account_ids (hd ex_group_rows) = ''[not json''"
    by (simp_all add: ex_defs eval_defs account_row_reads_def group_row_reads_def)
  have d: "s_conn ex_sqlite_deep = Some ex_deep_db"
    "accounts_tbl ex_deep_db = Some (the (accounts_tbl ex_deep_db))"
    "groups_tbl ex_deep_db = Some (the (groups_tbl ex_deep_db))"
    "hd (the (accounts_tbl ex_deep_db)) \<in> set (the (accounts_tbl ex_deep_db))"
    "hd (the (groups_tbl ex_deep_db)) \<in> set (the (groups_tbl ex_deep_db))"
    "\<not> account_row_reads ex_libs (hd (the (accounts_tbl ex_deep_db)))"
    "\<not> group_row_reads ex_libs (hd (the (groups_tbl ex_deep_db)))"
    by (simp_all add: ex_defs eval_defs account_row_reads_def group_row_reads_def)
  from undecodable_text_reads_as_absent
    [of ex_sqlite ex_sqlite_db ex_account_rows ex_libs "hd ex_account_rows" "''{not json''"
        ex_group_rows "hd ex_group_rows"] h l
  have p: "\<exists>accs. sqlite_read_accounts ex_libs ex_sqlite = Inr accs \<and>
      \<lparr>a_id = ''a2'', a_role_name = ''guest'', a_user_name = ''v'', a_password = ''q'',
       a_server_id = 2, a_ranking = None, a_cookies = PNone\<rparr> \<in> set accs"
    "\<exists>gs. sqlite_read_groups ex_libs ex_sqlite = Inr gs \<and>
      \<lparr>g_id = ''g2'', g_name = ''H'', g_description = Some ''second'',
       g_account_ids = PList [], g_ranking = None\<rparr> \<in> set gs"
    by (simp_all add: ex_account_rows_def ex_group_rows_def)
  from undecodable_text_reads_as_absent
    [of ex_sqlite_deep ex_deep_db "the (accounts_tbl ex_deep_db)" ex_libs
        "hd (the (accounts_tbl ex_deep_db))" "[]"
        "the (groups_tbl ex_deep_db)" "hd (the (groups_tbl ex_deep_db))"] d
  have n: "\<exists>e. sqlite_read_accounts ex_libs ex_sqlite_deep = Inl e"
    "\<exists>e. sqlite_read_groups ex_libs ex_sqlite_deep = Inl e"
    by blast+
  from l p n show ?thesis
    by blast
qed

text \<open>
  The claim C6 as written fails for a text that does not parse and is not rejected with
  \<open>JSONDecodeError\<close>: on the deeply nested text \<open>json.loads\<close> raises
  \<open>RecursionError\<close>, which the read does not catch; on a text that is not UTF-8 the
  fetch of the row raises \<open>OperationalError\<close>.
\<close>

theorem uncaught_read_error_counterexample:
  "sqlite_read_accounts ex_libs ex_sqlite_deep =
     Inl (RecursionError ''maximum recursion depth exceeded'') \<and>
   sqlite_read_groups ex_libs ex_sqlite_deep =
     Inl (RecursionError ''maximum recursion depth exceeded'') \<and>
   sqlite_read_accounts ex_libs ex_sqlite_raw =
     Inl (OperationalError ''Could not decode to UTF-8 column'') \<and>
   sqlite_read_groups ex_libs ex_sqlite_raw =
     Inl (OperationalError ''Could not decode to UTF-8 column'')"
  by (simp add: sqlite_read_accounts_def sqlite_read_groups_def ex_defs eval_defs)

subsection \<open>The guard of the document backend\<close>

lemma mongo_guard_raises:
  "database_bool L = Inl e \<Longrightarrow> m_db b = Some db \<Longrightarrow> mongo_guard L b = Inl e"
  by (simp add: mongo_guard_def)

text \<open>
  Claim C8 says that the reads of either backend kind return the records sorted by id.
  The reads of the document backend return nothing: with a \<open>pymongo\<close> whose
  \<open>Database\<close> objects raise when asked for their truth value (PyMongo 4), the guard
  \<^verbatim>\<open>if not self.db\<close> raises for every connected backend, in \<open>read_accounts\<close> and
  in \<open>read_groups\<close>. (The relational reads are sorted: \<open>relational_reads_sorted\<close>.)
\<close>

theorem document_reads_raise:
  "database_bool L = Inl e \<and> m_db b = Some db \<longrightarrow>
     read_accounts L (Mongo b) = Inl e \<and> read_groups L (Mongo b) = Inl e"
  by (simp add: mongo_read_accounts_def mongo_read_groups_def mongo_guard_raises)

theorem document_reads_raise_witness:
  "m_db ex_mongo = Some ex_mongo_db \<and>
   read_accounts ex_libs (Mongo ex_mongo) =
     Inl (NotImplementedError
       ''Database objects do not implement truth value testing or bool()'') \<and>
   read_groups ex_libs (Mongo ex_mongo) =
     Inl (NotImplementedError
       ''Database objects do not implement truth value testing or bool()'')"
  using document_reads_raise
    [of ex_libs "NotImplementedError
       ''Database objects do not implement truth value testing or bool()''"
       ex_mongo ex_mongo_db]
  by (simp add: ex_libs_def ex_mongo_def)

text \<open>
  Claim C10 says that \<open>read_groups\<close> of the document backend returns a group with the
  defaults for the absent fields of its document, a group with an empty name included.
  The conversion of a document has these defaults, but \<open>read_groups\<close> does not reach
  it: the guard raises for every connected backend whose \<open>Database\<close> object raises on
  its truth test.
\<close>

theorem document_group_read_raises:
  "database_bool L = Inl e \<and> m_db b = Some db \<and> doc \<in> set (groups_coll db) \<longrightarrow>
     mongo_read_groups L b = Inl e \<and>
     doc_to_group doc =
       \<lparr>g_id = gd_id doc,
        g_name = (case gd_name doc of Absent \<Rightarrow> [] | Present v \<Rightarrow> v),
        g_description = (case gd_description doc of Absent \<Rightarrow> None | Present v \<Rightarrow> v),
        g_account_ids = (case gd_account_ids doc of Absent \<Rightarrow> PList [] | Present v \<Rightarrow> v),
        g_ranking = (case gd_ranking doc of Absent \<Rightarrow> Some 0 | Present v \<Rightarrow> v)\<rparr>"
  by (simp add: mongo_read_groups_def mongo_guard_raises doc_to_group_def split: field.splits)

theorem document_group_read_raises_witness:
  "mongo_read_groups ex_libs ex_mongo =
     Inl (NotImplementedError
       ''Database objects do not implement truth value testing or bool()'') \<and>
   doc_to_group
     \<lparr>gd_id = ''g1'', gd_name = Absent, gd_description = Absent, gd_account_ids = Absent,
      gd_ranking = Absent\<rparr> =
     \<lparr>g_id = ''g1'', g_name = [], g_description = None, g_account_ids = PList [],
      g_ranking = Some 0\<rparr>"
  using document_group_read_raises
    [of ex_libs "NotImplementedError
       ''Database objects do not implement truth value testing or bool()''"
       ex_mongo ex_mongo_db
       "\<lparr>gd_id = ''g1'', gd_name = Absent, gd_description = Absent, gd_account_ids = Absent,
         gd_ranking = Absent\<rparr>"]
  by (simp add: ex_libs_def ex_mongo_def ex_mongo_db_def)

text \<open>
  Claim C2 says that two writes of a record with the same id, on either backend kind,
  leave one stored record with the values of the second. On a connected document backend
  neither write stores anything: \<open>write_accounts\<close> and \<open>write_groups\<close> raise at the
  guard, for the first record and for the second.
\<close>

theorem document_upsert_raises:
  "database_bool L = Inl e \<and> m_db b = Some db \<and> a_id a1 = a_id a2 \<and> g_id g1 = g_id g2 \<longrightarrow>
     write_accounts L [a1] (Mongo b) = Inl e \<and> write_accounts L [a2] (Mongo b) = Inl e \<and>
     write_groups L [g1] (Mongo b) = Inl e \<and> write_groups L [g2] (Mongo b) = Inl e"
  by (simp add: mongo_write_accounts_def mongo_write_groups_def mongo_guard_raises)

theorem document_upsert_raises_witness:
  "a_id ex_account_v1 = a_id ex_account_v2 \<and> g_id ex_group_v1 = g_id ex_group_v2 \<and>
   write_accounts ex_libs [ex_account_v1] (Mongo ex_mongo) =
     Inl (NotImplementedError
       ''Database objects do not implement truth value testing or bool()'') \<and>
   write_accounts ex_libs [ex_account_v2] (Mongo ex_mongo) =
     Inl (NotImplementedError
       ''Database objects do not implement truth value testing or bool()'') \<and>
   write_groups ex_libs [ex_group_v1] (Mongo ex_mongo) =
     Inl (NotImplementedError
       ''Database objects do not implement truth value testing or bool()'') \<and>
   write_groups ex_libs [ex_group_v2] (Mongo ex_mongo) =
     Inl (NotImplementedError
       ''Database objects do not implement truth value testing or bool()'')"
  using document_upsert_raises
    [of ex_libs "NotImplementedError
       ''Database objects do not implement truth value testing or bool()''"
       ex_mongo ex_mongo_db ex_account_v1 ex_account_v2 ex_group_v1 ex_group_v2]
  by (simp add: ex_libs_def ex_mongo_def ex_account_v1_def ex_account_v2_def ex_group_v1_def
      ex_group_v2_def)

text \<open>
  Claim C9 says that a batch holding two records with the same id leaves the later one
  stored, on either backend kind. On a connected document backend the batch is not
  applied at all: the write raises at the guard, before its loop.
\<close>

theorem document_batch_raises:
  "database_bool L = Inl e \<and> m_db b = Some db \<longrightarrow>
     mongo_write_accounts L (apre @ a1 # amid @ a2 # apost) b = Inl e \<and>
     mongo_write_groups L (gpre @ g1 # gmid @ g2 # gpost) b = Inl e"
  by (simp add: mongo_write_accounts_def mongo_write_groups_def mongo_guard_raises)

theorem document_batch_raises_witness:
  "mongo_write_accounts ex_libs [ex_account_v1, ex_account_v2] ex_mongo =
     Inl (NotImplementedError
       ''Database objects do not implement truth value testing or bool()'') \<and>
   mongo_write_groups ex_libs [ex_group_v1, ex_group_v2] ex_mongo =
     Inl (NotImplementedError
       ''Database objects do not implement truth value testing or bool()'')"
  using document_batch_raises
    [of ex_libs "NotImplementedError
       ''Database objects do not implement truth value testing or bool()''"
       ex_mongo ex_mongo_db "[]" ex_account_v1 "[]" ex_account_v2 "[]"
       "[]" ex_group_v1 "[]" ex_group_v2 "[]"]
  by (simp add: ex_libs_def ex_mongo_def)

subsection \<open>Upserts of the relational backend\<close>

text \<open>
  On the relational backend the upsert does work, for records whose parameters bind:
  after two writes with the same id, and after a batch with the same id twice, the one
  row stored for the id has the columns of the later record, with the cookies as
  \<open>write_accounts\<close> encodes them (\<open>NULL\<close> for falsy cookies, the empty list
  included).
\<close>

lemma insert_or_replace_filter:
  "filter (\<lambda>r. key r = k) (insert_or_replace key new rows) =
     (if key new = k then [new] else filter (\<lambda>r. key r = k) rows)"
  by (induction rows) (auto simp: insert_or_replace_def)

lemma insert_or_replace_batch:
  "filter (\<lambda>r. key r = k) (foldl (\<lambda>t x. insert_or_replace key (f x) t) rows xs) =
     (case filter (\<lambda>x. key (f x) = k) xs of
        [] \<Rightarrow> filter (\<lambda>r. key r = k) rows
      | y # ys \<Rightarrow> [f (last (y # ys))])"
proof (induction xs rule: rev_induct)
  case Nil
  then show ?case by simp
next
  case (snoc x xs)
  then show ?case
    by (auto simp: insert_or_replace_filter split: list.splits)
qed

lemma case_last_nonempty:
  "l \<noteq> [] \<Longrightarrow> (case l of [] \<Rightarrow> A | y # ys \<Rightarrow> B (last (y # ys))) = B (last l)"
  by (cases l) simp_all

lemma last_filter_decomp:
  assumes "\<forall>x\<in>set post. key x \<noteq> key a"
  shows "(case filter (\<lambda>x. key x = key a) (pre @ a # post) of
            [] \<Rightarrow> A
          | y # ys \<Rightarrow> B (last (y # ys))) = B a"
proof -
  from assms have "filter (\<lambda>x. key x = key a) post = []"
    by (induction post) auto
  then have eq: "filter (\<lambda>x. key x = key a) (pre @ a # post) =
      filter (\<lambda>x. key x = key a) pre @ [a]"
    by simp
  show ?thesis
    unfolding eq by (subst case_last_nonempty) simp_all
qed

lemma last_of_later_occurrence:
  assumes "\<forall>x\<in>set post. key x \<noteq> key a"
  shows "(case filter (\<lambda>x. key x = key a) (pre @ a1 # mid @ a # post) of
            [] \<Rightarrow> A
          | y # ys \<Rightarrow> B (last (y # ys))) = B a"
proof -
  have eq: "pre @ a1 # mid @ a # post = (pre @ a1 # mid) @ a # post"
    by simp
  show ?thesis
    unfolding eq by (rule last_filter_decomp [OF assms])
qed

lemma account_to_row_id [simp]: "ar_id (account_to_row acc cj) = a_id acc"
  by (simp add: account_to_row_def)

lemma group_to_row_id [simp]: "gr_id (group_to_row grp aj) = g_id grp"
  by (simp add: group_to_row_def)

lemma sqlite_insert_accounts_foldl:
  "accounts_tbl db = Some rows \<Longrightarrow>
   \<forall>a\<in>set accs. \<exists>cj. cookies_json L a = Inr cj \<and> bind_account a cj = None \<Longrightarrow>
   sqlite_insert_accounts L accs db =
     Inr (db\<lparr>accounts_tbl :=
       Some (foldl (\<lambda>t a. insert_or_replace ar_id
                (account_to_row a (projr (cookies_json L a))) t) rows accs)\<rparr>)"
  by (induction accs arbitrary: db rows) auto

lemma sqlite_insert_groups_foldl:
  "groups_tbl db = Some rows \<Longrightarrow>
   \<forall>g\<in>set gs. \<exists>aj. dumps L (g_account_ids g) = Inr aj \<and> bind_group g aj = None \<Longrightarrow>
   sqlite_insert_groups L gs db =
     Inr (db\<lparr>groups_tbl :=
       Some (foldl (\<lambda>t g. insert_or_replace gr_id
                (group_to_row g (projr (dumps L (g_account_ids g)))) t) rows gs)\<rparr>)"
  by (induction gs arbitrary: db rows) auto

lemma sqlite_write_accounts_stored:
  assumes "s_conn b = Some db" "accounts_tbl db = Some rows"
    "\<forall>a\<in>set xs. \<exists>cj. cookies_json L a = Inr cj \<and> bind_account a cj = None"
  shows "\<exists>b'. sqlite_write_accounts L xs b = Inr b' \<and>
           (\<exists>db'. s_conn b' = Some db' \<and> accounts_tbl db' \<noteq> None \<and>
              groups_tbl db' = groups_tbl db) \<and>
           (\<forall>k. stored_group_rows b' k = stored_group_rows b k) \<and>
           (\<forall>k. stored_account_rows b' k =
              (case filter (\<lambda>x. a_id x = k) xs of
                 [] \<Rightarrow> stored_account_rows b k
               | y # ys \<Rightarrow>
                   [account_to_row (last (y # ys)) (projr (cookies_json L (last (y # ys))))]))"
  using assms
  by (simp add: sqlite_write_accounts_def sqlite_insert_accounts_foldl stored_account_rows_def
      stored_group_rows_def
      insert_or_replace_batch [where f = "\<lambda>a. account_to_row a (projr (cookies_json L a))"]
      cong: list.case_cong)

lemma sqlite_write_groups_stored:
  assumes "s_conn b = Some db" "groups_tbl db = Some rows"
    "\<forall>g\<in>set xs. \<exists>aj. dumps L (g_account_ids g) = Inr aj \<and> bind_group g aj = None"
  shows "\<exists>b'. sqlite_write_groups L xs b = Inr b' \<and>
           (\<exists>db'. s_conn b' = Some db' \<and> groups_tbl db' \<noteq> None \<and>
              accounts_tbl db' = accounts_tbl db) \<and>
           (\<forall>k. stored_account_rows b' k = stored_account_rows b k) \<and>
           (\<forall>k. stored_group_rows b' k =
              (case filter (\<lambda>x. g_id x = k) xs of
                 [] \<Rightarrow> stored_group_rows b k
               | y # ys \<Rightarrow>
                   [group_to_row (last (y # ys))
                      (projr (dumps L (g_account_ids (last (y # ys)))))]))"
  using assms
  by (simp add: sqlite_write_groups_def sqlite_insert_groups_foldl stored_account_rows_def
      stored_group_rows_def
      insert_or_replace_batch [where f = "\<lambda>g. group_to_row g (projr (dumps L (g_account_ids g)))"]
      cong: list.case_cong)

lemma relational_upsert_twice:
  "(s_conn b = Some db \<and> accounts_tbl db = Some arows \<and> a_id a1 = a_id a2 \<and>
    cookies_json L a1 = Inr c1 \<and> bind_account a1 c1 = None \<and>
    cookies_json L a2 = Inr c2 \<and> bind_account a2 c2 = None \<longrightarrow>
      (\<exists>b1 b2. sqlite_write_accounts L [a1] b = Inr b1 \<and>
         sqlite_write_accounts L [a2] b1 = Inr b2 \<and>
         stored_account_rows b2 (a_id a1) =
           [\<lparr>ar_id = a_id a2, ar_role_name = a_role_name a2, ar_user_name = a_user_name a2,
             ar_password = a_password a2, ar_server_id = a_server_id a2,
             ar_ranking = a_ranking a2, ar_cookies = c2\<rparr>])) \<and>
   (s_conn b = Some db \<and> groups_tbl db = Some grows \<and> g_id g1 = g_id g2 \<and>
    dumps L (g_account_ids g1) = Inr j1 \<and> bind_group g1 j1 = None \<and>
    dumps L (g_account_ids g2) = Inr j2 \<and> bind_group g2 j2 = None \<longrightarrow>
      (\<exists>b1 b2. sqlite_write_groups L [g1] b = Inr b1 \<and>
         sqlite_write_groups L [g2] b1 = Inr b2 \<and>
         stored_group_rows b2 (g_id g1) =
           [\<lparr>gr_id = g_id g2, gr_name = g_name g2, gr_description = g_description g2,
             gr_account_ids = j2, gr_ranking = g_ranking g2\<rparr>]))"
  by (simp add: sqlite_write_accounts_def sqlite_write_groups_def stored_account_rows_def
      stored_group_rows_def insert_or_replace_filter account_to_row_def group_to_row_def)

lemma relational_upsert_twice_example:
  "\<exists>b1 b2. sqlite_write_accounts ex_libs [ex_account_v1] ex_sqlite = Inr b1 \<and>
     sqlite_write_accounts ex_libs [ex_account_v2] b1 = Inr b2 \<and>
     stored_account_rows b1 ''a1'' =
       [\<lparr>ar_id = ''a1'', ar_role_name = ''admin'', ar_user_name = ''u'', ar_password = ''p'',
         ar_server_id = 1, ar_ranking = Some 0, ar_cookies = Some ''[{}]''\<rparr>] \<and>
     stored_account_rows b2 ''a1'' =
       [\<lparr>ar_id = ''a1'', ar_role_name = ''root'', ar_user_name = ''w'', ar_password = ''r'',
         ar_server_id = 3, ar_ranking = Some 7, ar_cookies = None\<rparr>]"
  by (simp add: sqlite_write_accounts_def stored_account_rows_def ex_defs eval_defs)

lemma relational_last_in_batch:
  "(s_conn b = Some db \<and> accounts_tbl db = Some arows \<and> a_id a1 = a_id a2 \<and>
    (\<forall>x\<in>set apost. a_id x \<noteq> a_id a2) \<and>
    (\<forall>a\<in>set (apre @ a1 # amid @ a2 # apost).
       \<exists>cj. cookies_json L a = Inr cj \<and> bind_account a cj = None) \<and>
    cookies_json L a2 = Inr c2 \<longrightarrow>
      (\<exists>b'. sqlite_write_accounts L (apre @ a1 # amid @ a2 # apost) b = Inr b' \<and>
         stored_account_rows b' (a_id a1) =
           [\<lparr>ar_id = a_id a2, ar_role_name = a_role_name a2, ar_user_name = a_user_name a2,
             ar_password = a_password a2, ar_server_id = a_server_id a2,
             ar_ranking = a_ranking a2, ar_cookies = c2\<rparr>])) \<and>
   (s_conn b = Some db \<and> groups_tbl db = Some grows \<and> g_id g1 = g_id g2 \<and>
    (\<forall>x\<in>set gpost. g_id x \<noteq> g_id g2) \<and>
    (\<forall>g\<in>set (gpre @ g1 # gmid @ g2 # gpost).
       \<exists>aj. dumps L (g_account_ids g) = Inr aj \<and> bind_group g aj = None) \<and>
    dumps L (g_account_ids g2) = Inr j2 \<longrightarrow>
      (\<exists>b'. sqlite_write_groups L (gpre @ g1 # gmid @ g2 # gpost) b = Inr b' \<and>
         stored_group_rows b' (g_id g1) =
           [\<lparr>gr_id = g_id g2, gr_name = g_name g2, gr_description = g_description g2,
             gr_account_ids = j2, gr_ranking = g_ranking g2\<rparr>]))"
proof (intro conjI impI)
  assume h: "s_conn b = Some db \<and> accounts_tbl db = Some arows \<and> a_id a1 = a_id a2 \<and>
    (\<forall>x\<in>set apost. a_id x \<noteq> a_id a2) \<and>
    (\<forall>a\<in>set (apre @ a1 # amid @ a2 # apost).
       \<exists>cj. cookies_json L a = Inr cj \<and> bind_account a cj = None) \<and>
    cookies_json L a2 = Inr c2"
  then have c: "s_conn b = Some db" "accounts_tbl db = Some arows"
    "\<forall>a\<in>set (apre @ a1 # amid @ a2 # apost).
       \<exists>cj. cookies_json L a = Inr cj \<and> bind_account a cj = None"
    and p: "\<forall>x\<in>set apost. a_id x \<noteq> a_id a2"
    by blast+
  from sqlite_write_accounts_stored [OF c]
  obtain b' where w: "sqlite_write_accounts L (apre @ a1 # amid @ a2 # apost) b = Inr b'"
    and s: "stored_account_rows b' (a_id a2) =
      (case filter (\<lambda>x. a_id x = a_id a2) (apre @ a1 # amid @ a2 # apost) of
         [] \<Rightarrow> stored_account_rows b (a_id a2)
       | y # ys \<Rightarrow>
           [account_to_row (last (y # ys)) (projr (cookies_json L (last (y # ys))))])"
    by blast
  have "stored_account_rows b' (a_id a2) = [account_to_row a2 (projr (cookies_json L a2))]"
    by (rule trans [OF s last_of_later_occurrence [OF p]])
  with h have "stored_account_rows b' (a_id a1) =
      [\<lparr>ar_id = a_id a2, ar_role_name = a_role_name a2, ar_user_name = a_user_name a2,
        ar_password = a_password a2, ar_server_id = a_server_id a2,
        ar_ranking = a_ranking a2, ar_cookies = c2\<rparr>]"
    by (simp add: account_to_row_def)
  with w show "\<exists>b'. sqlite_write_accounts L (apre @ a1 # amid @ a2 # apost) b = Inr b' \<and>
         stored_account_rows b' (a_id a1) =
           [\<lparr>ar_id = a_id a2, ar_role_name = a_role_name a2, ar_user_name = a_user_name a2,
             ar_password = a_password a2, ar_server_id = a_server_id a2,
             ar_ranking = a_ranking a2, ar_cookies = c2\<rparr>]"
    by blast
next
  assume h: "s_conn b = Some db \<and> groups_tbl db = Some grows \<and> g_id g1 = g_id g2 \<and>
    (\<forall>x\<in>set gpost. g_id x \<noteq> g_id g2) \<and>
    (\<forall>g\<in>set (gpre @ g1 # gmid @ g2 # gpost).
       \<exists>aj. dumps L (g_account_ids g) = Inr aj \<and> bind_group g aj = None) \<and>
    dumps L (g_account_ids g2) = Inr j2"
  then have c: "s_conn b = Some db" "groups_tbl db = Some grows"
    "\<forall>g\<in>set (gpre @ g1 # gmid @ g2 # gpost).
       \<exists>aj. dumps L (g_account_ids g) = Inr aj \<and> bind_group g aj = None"
    and p: "\<forall>x\<in>set gpost. g_id x \<noteq> g_id g2"
    by blast+
  from sqlite_write_groups_stored [OF c]
  obtain b' where w: "sqlite_write_groups L (gpre @ g1 # gmid @ g2 # gpost) b = Inr b'"
    and s: "stored_group_rows b' (g_id g2) =
      (case filter (\<lambda>x. g_id x = g_id g2) (gpre @ g1 # gmid @ g2 # gpost) of
         [] \<Rightarrow> stored_group_rows b (g_id g2)
       | y # ys \<Rightarrow>
           [group_to_row (last (y # ys)) (projr (dumps L (g_account_ids (last (y # ys)))))])"
    by blast
  have "stored_group_rows b' (g_id g2) =
      [group_to_row g2 (projr (dumps L (g_account_ids g2)))]"
    by (rule trans [OF s last_of_later_occurrence [OF p]])
  with h have "stored_group_rows b' (g_id g1) =
      [\<lparr>gr_id = g_id g2, gr_name = g_name g2, gr_description = g_description g2,
        gr_account_ids = j2, gr_ranking = g_ranking g2\<rparr>]"
    by (simp add: group_to_row_def)
  with w show "\<exists>b'. sqlite_write_groups L (gpre @ g1 # gmid @ g2 # gpost) b = Inr b' \<and>
         stored_group_rows b' (g_id g1) =
           [\<lparr>gr_id = g_id g2, gr_name = g_name g2, gr_description = g_description g2,
             gr_account_ids = j2, gr_ranking = g_ranking g2\<rparr>]"
    by blast
qed

subsection \<open>Cookie stripping\<close>

lemma log_accounts_stripped: "log_accounts (strip_cookies accs) = Inr ()"
  by (induction accs) (simp_all add: strip_cookies_def)

text \<open>
  Claim C4 says that a run of \<open>migrate\<close> with \<open>skip_cookies\<close> enabled passes accounts
  without cookies to the target's \<open>write_accounts\<close>, so that the stored document of a
  document backend has no \<open>cookies\<close> field, and migrates the groups as read. With a
  connected document backend as the target, the accounts passed are indeed stripped, but
  \<open>write_accounts\<close> raises at its guard: the run ends with that exception, no document
  is stored, \<open>write_groups\<close> is not called, and the target is as before.
\<close>

theorem skip_cookies_document_target_raises:
  "database_bool L = Inl e \<and> m_db tb = Some tdb \<and>
   read_accounts L source = Inr accs \<and> read_groups L source = Inr gs \<and>
   log_groups gs = Inr () \<longrightarrow>
     migrate L source (Mongo tb) False True =
       \<lparr>raised = Some e, target_after = Mongo tb,
        target_calls =
          [EnsureSchema, WriteAccounts (map (\<lambda>a. a\<lparr>a_cookies := PNone\<rparr>) accs)]\<rparr>"
  using log_accounts_stripped [of accs]
  by (simp add: migrate_def mongo_ensure_schema_def mongo_write_accounts_def
      mongo_guard_raises strip_cookies_def)

theorem skip_cookies_document_target_raises_witness:
  "migrate ex_libs (Sqlite ex_sqlite) (Mongo ex_mongo) False True =
     \<lparr>raised = Some (NotImplementedError
        ''Database objects do not implement truth value testing or bool()''),
      target_after = Mongo ex_mongo,
      target_calls =
        [EnsureSchema,
         WriteAccounts
           [\<lparr>a_id = ''a1'', a_role_name = ''admin'', a_user_name = ''u'', a_password = ''p'',
             a_server_id = 1, a_ranking = Some 0, a_cookies = PNone\<rparr>,
            \<lparr>a_id = ''a2'', a_role_name = ''guest'', a_user_name = ''v'', a_password = ''q'',
             a_server_id = 2, a_ranking = None, a_cookies = PNone\<rparr>]]\<rparr>"
proof -
  have ra: "read_accounts ex_libs (Sqlite ex_sqlite) =
      Inr [\<lparr>a_id = ''a1'', a_role_name = ''admin'', a_user_name = ''u'', a_password = ''p'',
            a_server_id = 1, a_ranking = Some 0, a_cookies = PList [PDict []]\<rparr>,
           \<lparr>a_id = ''a2'', a_role_name = ''guest'', a_user_name = ''v'', a_password = ''q'',
            a_server_id = 2, a_ranking = None, a_cookies = PNone\<rparr>]"
    by (simp add: sqlite_read_accounts_def ex_defs eval_defs)
  have rg: "read_groups ex_libs (Sqlite ex_sqlite) =
      Inr [\<lparr>g_id = ''g1'', g_name = ''G'', g_description = None, g_account_ids = PList [],
            g_ranking = Some 0\<rparr>,
           \<lparr>g_id = ''g2'', g_name = ''H'', g_description = Some ''second'',
            g_account_ids = PList [], g_ranking = None\<rparr>]"
    by (simp add: sqlite_read_groups_def ex_defs eval_defs)
  have h: "database_bool ex_libs = Inl (NotImplementedError
        ''Database objects do not implement truth value testing or bool()'')"
    "m_db ex_mongo = Some ex_mongo_db"
    by (simp_all add: ex_libs_def ex_mongo_def)
  from skip_cookies_document_target_raises
    [where L = ex_libs and tb = ex_mongo and tdb = ex_mongo_db and source = "Sqlite ex_sqlite"
       and e = "NotImplementedError
        ''Database objects do not implement truth value testing or bool()''"
       and accs = "[\<lparr>a_id = ''a1'', a_role_name = ''admin'', a_user_name = ''u'',
            a_password = ''p'', a_server_id = 1, a_ranking = Some 0,
            a_cookies = PList [PDict []]\<rparr>,
           \<lparr>a_id = ''a2'', a_role_name = ''guest'', a_user_name = ''v'', a_password = ''q'',
            a_server_id = 2, a_ranking = None, a_cookies = PNone\<rparr>]"
       and gs = "[\<lparr>g_id = ''g1'', g_name = ''G'', g_description = None,
            g_account_ids = PList [], g_ranking = Some 0\<rparr>,
           \<lparr>g_id = ''g2'', g_name = ''H'', g_description = Some ''second'',
            g_account_ids = PList [], g_ranking = None\<rparr>]"]
    h ra rg
  show ?thesis
    by simp
qed

text \<open>
  With a relational target the run does strip the cookies: the accounts are stored with
  \<open>NULL\<close> cookies and the groups as read.
\<close>

lemma last_filter_in_set: "filter P xs = y # ys \<Longrightarrow> last (y # ys) \<in> set xs"
proof -
  assume h: "filter P xs = y # ys"
  have "last (y # ys) \<in> set (y # ys)"
    by (rule last_in_set) simp
  with h have "last (y # ys) \<in> set (filter P xs)"
    by simp
  then show ?thesis
    by simp
qed

lemma sqlite_ensure_schema_tables:
  "s_conn b = Some db \<Longrightarrow>
   \<exists>b1 db1 arows grows. sqlite_ensure_schema b = Inr b1 \<and> s_conn b1 = Some db1 \<and>
     accounts_tbl db1 = Some arows \<and> groups_tbl db1 = Some grows"
  by (auto simp: sqlite_ensure_schema_def create_if_not_exists_def split: option.splits)

lemma skip_cookies_relational_target:
  assumes c: "s_conn tb = Some tdb"
    and ra: "read_accounts L source = Inr accs" and rg: "read_groups L source = Inr gs"
    and lg: "log_groups gs = Inr ()"
    and ba: "\<forall>a\<in>set accs. bind_account a None = None"
    and bg: "\<forall>g\<in>set gs. \<exists>aj. dumps L (g_account_ids g) = Inr aj \<and> bind_group g aj = None"
  shows "\<exists>tb'. migrate L source (Sqlite tb) False True =
           \<lparr>raised = None, target_after = Sqlite tb',
            target_calls =
              [EnsureSchema, WriteAccounts (map (\<lambda>a. a\<lparr>a_cookies := PNone\<rparr>) accs),
               WriteGroups gs]\<rparr> \<and>
         (\<forall>a\<in>set accs. \<exists>row. stored_account_rows tb' (a_id a) = [row] \<and>
            ar_cookies row = None) \<and>
         (\<forall>g\<in>set gs. \<exists>g'\<in>set gs. g_id g' = g_id g \<and>
            stored_group_rows tb' (g_id g) =
              [group_to_row g' (projr (dumps L (g_account_ids g')))])"
proof -
  let ?accs = "strip_cookies accs"
  from sqlite_ensure_schema_tables [OF c]
  obtain b1 db1 arows grows where e: "sqlite_ensure_schema tb = Inr b1"
    and c1: "s_conn b1 = Some db1" and t1: "accounts_tbl db1 = Some arows"
    and g1: "groups_tbl db1 = Some grows"
    by blast
  from ba have ba': "\<forall>a\<in>set ?accs. \<exists>cj. cookies_json L a = Inr cj \<and> bind_account a cj = None"
    by (auto simp: strip_cookies_def cookies_json_def bind_account_def)
  from sqlite_write_accounts_stored [OF c1 t1 ba']
  obtain b2 db2 where w2: "sqlite_write_accounts L ?accs b1 = Inr b2"
    and c2: "s_conn b2 = Some db2" and g2: "groups_tbl db2 = groups_tbl db1"
    and s2: "\<forall>k. stored_account_rows b2 k =
      (case filter (\<lambda>x. a_id x = k) ?accs of
         [] \<Rightarrow> stored_account_rows b1 k
       | y # ys \<Rightarrow> [account_to_row (last (y # ys)) (projr (cookies_json L (last (y # ys))))])"
    by blast
  from g1 g2 have g2': "groups_tbl db2 = Some grows"
    by simp
  from sqlite_write_groups_stored [OF c2 g2' bg]
  obtain b3 where w3: "sqlite_write_groups L gs b2 = Inr b3"
    and a3: "\<forall>k. stored_account_rows b3 k = stored_account_rows b2 k"
    and s3: "\<forall>k. stored_group_rows b3 k =
      (case filter (\<lambda>x. g_id x = k) gs of
         [] \<Rightarrow> stored_group_rows b2 k
       | y # ys \<Rightarrow> [group_to_row (last (y # ys))
                      (projr (dumps L (g_account_ids (last (y # ys)))))])"
    by blast
  have m: "migrate L source (Sqlite tb) False True =
      \<lparr>raised = None, target_after = Sqlite b3,
       target_calls =
         [EnsureSchema, WriteAccounts (map (\<lambda>a. a\<lparr>a_cookies := PNone\<rparr>) accs),
          WriteGroups gs]\<rparr>"
    using ra rg lg e w2 w3 log_accounts_stripped [of accs]
    by (simp add: migrate_def) (simp add: strip_cookies_def)
  have sa: "\<exists>row. stored_account_rows b3 (a_id a) = [row] \<and> ar_cookies row = None"
    if "a \<in> set accs" for a
  proof -
    from that have "a\<lparr>a_cookies := PNone\<rparr> \<in> set (filter (\<lambda>x. a_id x = a_id a) ?accs)"
      by (auto simp: strip_cookies_def)
    then obtain y ys where f: "filter (\<lambda>x. a_id x = a_id a) ?accs = y # ys"
      by (cases "filter (\<lambda>x. a_id x = a_id a) ?accs") auto
    from last_filter_in_set [OF f] have "a_cookies (last (y # ys)) = PNone"
      by (auto simp: strip_cookies_def)
    then have "projr (cookies_json L (last (y # ys))) = None"
      by (simp add: cookies_json_def)
    with s2 a3 f show ?thesis
      by (simp add: account_to_row_def)
  qed
  have sg: "\<exists>g'\<in>set gs. g_id g' = g_id g \<and>
      stored_group_rows b3 (g_id g) = [group_to_row g' (projr (dumps L (g_account_ids g')))]"
    if "g \<in> set gs" for g
  proof -
    from that have "g \<in> set (filter (\<lambda>x. g_id x = g_id g) gs)"
      by simp
    then obtain y ys where f: "filter (\<lambda>x. g_id x = g_id g) gs = y # ys"
      by (cases "filter (\<lambda>x. g_id x = g_id g) gs") auto
    have "last (y # ys) \<in> set (y # ys)"
      by (rule last_in_set) simp
    with f have "last (y # ys) \<in> set (filter (\<lambda>x. g_id x = g_id g) gs)"
      by simp
    then have "last (y # ys) \<in> set gs" "g_id (last (y # ys)) = g_id g"
      by simp_all
    moreover from s3 f have "stored_group_rows b3 (g_id g) =
        [group_to_row (last (y # ys)) (projr (dumps L (g_account_ids (last (y # ys)))))]"
      by simp
    ultimately show ?thesis
      by blast
  qed
  from m sa sg show ?thesis
    by blast
qed

end
